theory Spec2Isabelle
  imports Main "HOL-Library.AList"
begin

section \<open>The switch\_port command of the Omada command line client\<close>

text \<open>
  A shallow embedding of \<^verbatim>\<open>tplink_omada_client/cli/command_switch_port.py\<close>.
  The command talks to a controller through a site client whose code lives in other
  modules. The site client is therefore a parameter: a record of functions over an
  arbitrary type \<open>'w\<close> of controller states. Every call may change the controller and may
  raise. The embedding threads the controller state together with a trace of everything
  the command did: the calls it issued (with their outcome), what it printed, and how long
  it slept.
\<close>

subsection \<open>Data\<close>

text \<open>JSON values, as they occur in the raw data of a port and in an override payload.\<close>

datatype json =
    JNull
  | JBool bool
  | JInt int
  | JStr string
  | JArr "json list"
  | JObj "(string \<times> json) list"

text \<open>
  A Python \<^verbatim>\<open>dict\<close> with string keys keeps its keys in insertion order; an assignment
  \<^verbatim>\<open>d[k] = v\<close> replaces the value of an existing key in place and appends a
  new key at the end. This is \<open>AList.update\<close> on an association list.
\<close>

type_synonym dict = "(string \<times> json) list"

datatype OmadaDevice = OmadaDevice (device_mac: string)

datatype OmadaPortProfile = OmadaPortProfile (name: string) (profile_id: string)

text \<open>
  The properties of \<^verbatim>\<open>OmadaSwitchPortDetails\<close> that the command reads. The enum-valued
  properties (\<^verbatim>\<open>link_speed\<close>, \<^verbatim>\<open>duplex\<close>, \<^verbatim>\<open>eth_802_1x_control\<close>, \<^verbatim>\<open>poe_mode\<close>,
  \<^verbatim>\<open>bandwidth_limit_mode\<close>) are only ever read through \<^verbatim>\<open>.value\<close>, so the field holds
  that integer. \<open>raw_data\<close> is the attribute \<^verbatim>\<open>_data\<close>.
\<close>

record OmadaSwitchPortDetails =
  operation :: string
  link_speed :: int
  duplex :: int
  eth_802_1x_control :: int
  poe_mode :: int
  bandwidth_limit_mode :: int
  lldp_med_enabled :: bool
  spanning_tree_enabled :: bool
  loopback_detect_enabled :: bool
  port_isolation_enabled :: bool
  topology_notify_enabled :: bool
  raw_data :: dict
  profile_id :: string
  has_schedule :: bool
  is_disabled :: bool

record ControllerConfig =
  site :: string

text \<open>The parsed command line: the dictionary \<^verbatim>\<open>args\<close>, one field \<open>arg_k\<close> per key \<^verbatim>\<open>k\<close>.\<close>

record args =
  arg_target :: string
  arg_mac :: string
  arg_port :: string
  arg_enable :: bool
  arg_disable :: bool
  arg_apply_schedule :: bool
  arg_dump :: bool

subsection \<open>Exceptions, calls and the trace\<close>

text \<open>
  \<open>failure\<close> is an exception raised by code outside this module (network, authentication,
  unknown device or port). The module itself raises only \<^verbatim>\<open>ValueError\<close>.
\<close>

datatype failure = Failure string

datatype exn =
    ValueError string
  | Propagated failure

datatype request =
    GetTargetArgument
  | GetTargetConfig string
  | ToOmadaConnection ControllerConfig
  | GetSiteClient string
  | GetDeviceMac string
  | GetDevice string
  | GetSwitchPort OmadaDevice int
  | UpdateSwitchPort OmadaDevice int "string option" "dict option"
  | GetPortProfiles

datatype outcome = Returned | Raised failure

text \<open>A piece of a formatted string: literal text, or an integer to be rendered.\<close>

datatype frag = Lit string | Num int

datatype event =
    Call request outcome
  | Print "frag list"
  | Sleep int
  | DumpRawData OmadaSwitchPortDetails
  | CloseConnection

type_synonym 'w state = "event list \<times> 'w"

type_synonym ('a, 'w) io = "'w state \<Rightarrow> (exn + 'a) \<times> 'w state"

text \<open>
  The site client, taken from the collaborator contract:
  \<^verbatim>\<open>update_switch_port(device, port, *, profile_id=None, overrides=None)\<close>.
\<close>

record 'w SiteClient =
  get_device :: "string \<Rightarrow> 'w \<Rightarrow> (failure + OmadaDevice) \<times> 'w"
  get_switch_port :: "OmadaDevice \<Rightarrow> int \<Rightarrow> 'w \<Rightarrow> (failure + OmadaSwitchPortDetails) \<times> 'w"
  update_switch_port ::
    "OmadaDevice \<Rightarrow> int \<Rightarrow> string option \<Rightarrow> dict option \<Rightarrow> 'w \<Rightarrow> (failure + unit) \<times> 'w"
  get_port_profiles :: "'w \<Rightarrow> (failure + OmadaPortProfile list) \<times> 'w"

text \<open>
  Everything else the command imports. \<open>to_omada_connection\<close> stands for building the
  client and entering its \<^verbatim>\<open>async with\<close> block, \<open>close_connection\<close> for leaving
  the block. \<open>int_of_str\<close> is Python's \<^verbatim>\<open>int\<close> on a string, \<open>None\<close> where it raises
  \<^verbatim>\<open>ValueError\<close>. \<open>asyncio_sleep\<close> is what the passing of time does to the controller.
\<close>

record 'w Host =
  get_target_argument :: "args \<Rightarrow> 'w \<Rightarrow> (failure + string) \<times> 'w"
  get_target_config :: "string \<Rightarrow> 'w \<Rightarrow> (failure + ControllerConfig) \<times> 'w"
  to_omada_connection :: "ControllerConfig \<Rightarrow> 'w \<Rightarrow> (failure + unit) \<times> 'w"
  close_connection :: "'w \<Rightarrow> 'w"
  get_site_client :: "string \<Rightarrow> 'w \<Rightarrow> (failure + 'w SiteClient) \<times> 'w"
  get_device_mac :: "'w SiteClient \<Rightarrow> string \<Rightarrow> 'w \<Rightarrow> (failure + string) \<times> 'w"
  int_of_str :: "string \<Rightarrow> int option"
  asyncio_sleep :: "int \<Rightarrow> 'w \<Rightarrow> 'w"

subsection \<open>Sequencing\<close>

definition io_return :: "'a \<Rightarrow> ('a, 'w) io" where
  "io_return x = (\<lambda>s. (Inr x, s))"

definition io_raise :: "exn \<Rightarrow> ('a, 'w) io" where
  "io_raise e = (\<lambda>s. (Inl e, s))"

text \<open>An exception ends the sequence: nothing in this module catches one.\<close>

definition io_bind :: "('a, 'w) io \<Rightarrow> ('a \<Rightarrow> ('b, 'w) io) \<Rightarrow> ('b, 'w) io" where
  "io_bind m f = (\<lambda>s. case m s of (Inl e, s') \<Rightarrow> (Inl e, s') | (Inr x, s') \<Rightarrow> f x s')"

text \<open>\<^verbatim>\<open>await\<close> of a collaborator call: the call is recorded with its outcome.\<close>

definition await :: "request \<Rightarrow> ('w \<Rightarrow> (failure + 'a) \<times> 'w) \<Rightarrow> ('a, 'w) io" where
  "await rq call = (\<lambda>(tr, w).
     case call w of
       (Inl f, w') \<Rightarrow> (Inl (Propagated f), (tr @ [Call rq (Raised f)], w'))
     | (Inr x, w') \<Rightarrow> (Inr x, (tr @ [Call rq Returned], w')))"

definition emit :: "event \<Rightarrow> (unit, 'w) io" where
  "emit e = (\<lambda>(tr, w). (Inr (), (tr @ [e], w)))"

definition print :: "frag list \<Rightarrow> (unit, 'w) io" where
  "print msg = emit (Print msg)"

definition sleep :: "(int \<Rightarrow> 'w \<Rightarrow> 'w) \<Rightarrow> int \<Rightarrow> (unit, 'w) io" where
  "sleep elapse n = (\<lambda>(tr, w). (Inr (), (tr @ [Sleep n], elapse n w)))"

subsection \<open>The payload that preserves the port's settings\<close>

definition preserve_port_settings :: "OmadaSwitchPortDetails \<Rightarrow> dict" where
  "preserve_port_settings port_details =
    (let payload =
       [(''operation'', JStr (operation port_details)),
        (''linkSpeed'', JInt (link_speed port_details)),
        (''duplex'', JInt (duplex port_details)),
        (''dot1x'', JInt (eth_802_1x_control port_details)),
        (''poe'', JInt (poe_mode port_details)),
        (''bandWidthCtrlType'', JInt (bandwidth_limit_mode port_details)),
        (''lldpMedEnable'', JBool (lldp_med_enabled port_details)),
        (''spanningTreeEnable'', JBool (spanning_tree_enabled port_details)),
        (''loopbackDetectEnable'', JBool (loopback_detect_enabled port_details)),
        (''portIsolationEnable'', JBool (port_isolation_enabled port_details))];
       payload =
        (case map_of (raw_data port_details) ''topoNotifyEnable'' of
           Some _ \<Rightarrow>
             AList.update ''topoNotifyEnable'' (JBool (topology_notify_enabled port_details)) payload
         | None \<Rightarrow> payload);
       payload =
        (case map_of (raw_data port_details) ''eeeEnable'' of
           Some v \<Rightarrow> AList.update ''eeeEnable'' v payload
         | None \<Rightarrow> payload);
       payload =
        (case map_of (raw_data port_details) ''flowControlEnable'' of
           Some v \<Rightarrow> AList.update ''flowControlEnable'' v payload
         | None \<Rightarrow> payload);
       payload =
        (case map_of (raw_data port_details) ''fastLeaveEnable'' of
           Some v \<Rightarrow> AList.update ''fastLeaveEnable'' v payload
         | None \<Rightarrow> payload)
     in payload)"

subsection \<open>Looking up the Disable profile\<close>

text \<open>The \<^verbatim>\<open>for\<close> loop over the profiles, with the \<^verbatim>\<open>raise\<close> that follows it.\<close>

fun disable_profile_loop :: "OmadaPortProfile list \<Rightarrow> exn + string" where
  "disable_profile_loop [] = Inl (ValueError ''Could not find Disable profile'')"
| "disable_profile_loop (profile # profiles) =
     (if name profile = ''Disable'' then Inr (OmadaPortProfile.profile_id profile)
      else disable_profile_loop profiles)"

definition get_disable_profile_id :: "'w SiteClient \<Rightarrow> (string, 'w) io" where
  "get_disable_profile_id site_client =
     io_bind (await GetPortProfiles (get_port_profiles site_client)) (\<lambda>profiles.
     case disable_profile_loop profiles of
       Inl e \<Rightarrow> io_raise e
     | Inr pid \<Rightarrow> io_return pid)"

subsection \<open>Enable and disable\<close>

definition enable_port_via_schedule ::
  "(int \<Rightarrow> 'w \<Rightarrow> 'w) \<Rightarrow> 'w SiteClient \<Rightarrow> OmadaDevice \<Rightarrow> int \<Rightarrow> (bool, 'w) io" where
  "enable_port_via_schedule elapse site_client device port =
     io_bind (await (GetSwitchPort device port) (get_switch_port site_client device port))
       (\<lambda>port_details.
     let original_profile = profile_id port_details in
     if has_schedule port_details then
       (let payload =
              AList.update ''scheduleEnable'' (JBool False) (preserve_port_settings port_details)
        in
        io_bind (await (UpdateSwitchPort device port None (Some payload))
                   (update_switch_port site_client device port None (Some payload))) (\<lambda>_.
        io_bind (print [Lit ''Port '', Num port, Lit '' enabled by disabling schedule'']) (\<lambda>_.
        io_return True)))
     else
       io_bind (get_disable_profile_id site_client) (\<lambda>disable_profile_id.
       io_bind (await (UpdateSwitchPort device port (Some disable_profile_id) None)
                  (update_switch_port site_client device port (Some disable_profile_id) None))
         (\<lambda>_.
       io_bind (print [Lit ''Port '', Num port, Lit '' temporarily disabled'']) (\<lambda>_.
       io_bind (sleep elapse 1) (\<lambda>_.
       io_bind (await (UpdateSwitchPort device port (Some original_profile) None)
                  (update_switch_port site_client device port (Some original_profile) None))
         (\<lambda>_.
       io_bind (print [Lit ''Port '', Num port, Lit '' re-enabled with original profile''])
         (\<lambda>_.
       io_bind (await (GetSwitchPort device port) (get_switch_port site_client device port))
         (\<lambda>refreshed_port.
       io_bind (print [Lit ''Port '', Num port, Lit '' status: '',
                       Lit (if \<not> is_disabled refreshed_port then ''enabled''
                            else ''disabled'')]) (\<lambda>_.
       io_return True)))))))))"

definition disable_port_via_schedule ::
  "'w SiteClient \<Rightarrow> OmadaDevice \<Rightarrow> int \<Rightarrow> bool \<Rightarrow> (bool, 'w) io" where
  "disable_port_via_schedule site_client device port apply_sched =
     io_bind (await (GetSwitchPort device port) (get_switch_port site_client device port))
       (\<lambda>port_details.
     if has_schedule port_details \<and> apply_sched then
       (let payload =
              AList.update ''scheduleEnable'' (JBool True) (preserve_port_settings port_details)
        in
        io_bind (await (UpdateSwitchPort device port None (Some payload))
                   (update_switch_port site_client device port None (Some payload))) (\<lambda>_.
        io_bind (print [Lit ''Port '', Num port, Lit '' disabled by enabling schedule'']) (\<lambda>_.
        io_return True)))
     else
       io_bind (get_disable_profile_id site_client) (\<lambda>disable_profile_id.
       io_bind (await (UpdateSwitchPort device port (Some disable_profile_id) None)
                  (update_switch_port site_client device port (Some disable_profile_id) None))
         (\<lambda>_.
       io_bind (print [Lit ''Port '', Num port, Lit '' disabled via profile'']) (\<lambda>_.
       io_return True))))"

subsection \<open>The command\<close>

text \<open>
  \<^verbatim>\<open>async with to_omada_connection(config) as client\<close>: the connection is closed when
  the block is left, whether the block returned or raised.
\<close>

definition async_with :: "'w Host \<Rightarrow> ControllerConfig \<Rightarrow> ('a, 'w) io \<Rightarrow> ('a, 'w) io" where
  "async_with host config body =
     io_bind (await (ToOmadaConnection config) (to_omada_connection host config)) (\<lambda>_.
     (\<lambda>s. case body s of
            (r, (tr, w)) \<Rightarrow> (r, (tr @ [CloseConnection], close_connection host w))))"

definition py_int :: "'w Host \<Rightarrow> string \<Rightarrow> (int, 'w) io" where
  "py_int host s =
     (case int_of_str host s of
        None \<Rightarrow> io_raise (ValueError ''invalid literal for int() with base 10'')
      | Some n \<Rightarrow> io_return n)"

text \<open>\<^verbatim>\<open>dump_raw_data(args, port_details)\<close> writes the raw data of the port to the output.\<close>

definition dump_raw_data :: "args \<Rightarrow> OmadaSwitchPortDetails \<Rightarrow> (unit, 'w) io" where
  "dump_raw_data args port_details = emit (DumpRawData port_details)"

definition command_switch_port :: "'w Host \<Rightarrow> args \<Rightarrow> (int, 'w) io" where
  "command_switch_port host args =
     io_bind (await GetTargetArgument (get_target_argument host args)) (\<lambda>controller.
     io_bind (await (GetTargetConfig controller) (get_target_config host controller)) (\<lambda>config.
     async_with host config
      (io_bind (await (GetSiteClient (site config)) (get_site_client host (site config)))
         (\<lambda>site_client.
       io_bind (await (GetDeviceMac (arg_mac args))
                  (get_device_mac host site_client (arg_mac args))) (\<lambda>mac.
       io_bind (await (GetDevice mac) (get_device site_client mac)) (\<lambda>device.
       io_bind (py_int host (arg_port args)) (\<lambda>port.
       io_bind
         (if arg_enable args then
            io_bind (enable_port_via_schedule (asyncio_sleep host) site_client device port)
              (\<lambda>result. io_return ())
          else if arg_disable args then
            io_bind (disable_port_via_schedule site_client device port (arg_apply_schedule args))
              (\<lambda>result. io_return ())
          else io_return ()) (\<lambda>_.
       io_bind
         (if arg_dump args then
            io_bind (await (GetSwitchPort device port) (get_switch_port site_client device port))
              (\<lambda>port_details. dump_raw_data args port_details)
          else io_return ()) (\<lambda>_.
       io_return 0)))))))))"

subsection \<open>Reading a trace\<close>

fun is_update :: "event \<Rightarrow> bool" where
  "is_update (Call (UpdateSwitchPort d p pid ov) oc) = True"
| "is_update e = False"

fun is_profile_lookup :: "event \<Rightarrow> bool" where
  "is_profile_lookup (Call GetPortProfiles oc) = True"
| "is_profile_lookup e = False"

text \<open>The \<^verbatim>\<open>update_switch_port\<close> calls of a trace, in the order they were issued.\<close>

definition mutating_calls :: "event list \<Rightarrow> event list" where
  "mutating_calls tr = filter is_update tr"

text \<open>
  A trace and a result are fail-fast when a call that raised is the last thing the trace
  records and its exception is the result: nothing was caught, retried or compensated.
\<close>

fun fail_fast :: "event list \<Rightarrow> exn + 'a \<Rightarrow> bool" where
  "fail_fast [] r = True"
| "fail_fast (Call rq (Raised f) # es) r = (es = [] \<and> r = Inl (Propagated f))"
| "fail_fast (e # es) r = fail_fast es r"

text \<open>
  What it means for an override payload to preserve the settings of a port: every
  setting the port has is in the payload with the port's value, an optional setting is in
  the payload exactly when the raw data has it, and the payload has no other key than
  these and the schedule flag.
\<close>

definition preserves_settings :: "OmadaSwitchPortDetails \<Rightarrow> dict \<Rightarrow> bool" where
  "preserves_settings pd payload \<longleftrightarrow>
     map_of payload ''operation'' = Some (JStr (operation pd)) \<and>
     map_of payload ''linkSpeed'' = Some (JInt (link_speed pd)) \<and>
     map_of payload ''duplex'' = Some (JInt (duplex pd)) \<and>
     map_of payload ''dot1x'' = Some (JInt (eth_802_1x_control pd)) \<and>
     map_of payload ''poe'' = Some (JInt (poe_mode pd)) \<and>
     map_of payload ''bandWidthCtrlType'' = Some (JInt (bandwidth_limit_mode pd)) \<and>
     map_of payload ''lldpMedEnable'' = Some (JBool (lldp_med_enabled pd)) \<and>
     map_of payload ''spanningTreeEnable'' = Some (JBool (spanning_tree_enabled pd)) \<and>
     map_of payload ''loopbackDetectEnable'' = Some (JBool (loopback_detect_enabled pd)) \<and>
     map_of payload ''portIsolationEnable'' = Some (JBool (port_isolation_enabled pd)) \<and>
     map_of payload ''topoNotifyEnable'' =
       map_option (\<lambda>_. JBool (topology_notify_enabled pd))
         (map_of (raw_data pd) ''topoNotifyEnable'') \<and>
     map_of payload ''eeeEnable'' = map_of (raw_data pd) ''eeeEnable'' \<and>
     map_of payload ''flowControlEnable'' = map_of (raw_data pd) ''flowControlEnable'' \<and>
     map_of payload ''fastLeaveEnable'' = map_of (raw_data pd) ''fastLeaveEnable'' \<and>
     distinct (map fst payload) \<and>
     set (map fst payload) \<subseteq>
       set [''operation'', ''linkSpeed'', ''duplex'', ''dot1x'', ''poe'', ''bandWidthCtrlType'',
            ''lldpMedEnable'', ''spanningTreeEnable'', ''loopbackDetectEnable'',
            ''portIsolationEnable'', ''topoNotifyEnable'', ''eeeEnable'',
            ''flowControlEnable'', ''fastLeaveEnable'', ''scheduleEnable'']"

subsection \<open>A controller to run the command against\<close>

text \<open>
  An in-memory controller with one switch port, used to run the definitions on concrete
  inputs. A call succeeds while the budget lasts and times out once it is used up. Assigning
  a profile to the port makes the port disabled exactly when it is the profile the lookup
  of ``Disable'' finds. The host around it never fails, and reads the one port number
  the runs below use.
\<close>

record controller =
  ctl_port :: OmadaSwitchPortDetails
  ctl_profiles :: "OmadaPortProfile list"
  ctl_budget :: nat

definition spend :: "controller \<Rightarrow> (controller \<Rightarrow> 'a \<times> controller) \<Rightarrow> (failure + 'a) \<times> controller" where
  "spend w act =
     (if ctl_budget w = 0 then (Inl (Failure ''timed out''), w)
      else (case act (w\<lparr>ctl_budget := ctl_budget w - 1\<rparr>) of (x, w') \<Rightarrow> (Inr x, w')))"

definition assign :: "string option \<Rightarrow> controller \<Rightarrow> controller" where
  "assign pid w =
     (case pid of
        None \<Rightarrow> w
      | Some i \<Rightarrow>
          w\<lparr>ctl_port := (ctl_port w)\<lparr>profile_id := i,
               is_disabled := (disable_profile_loop (ctl_profiles w) = Inr i)\<rparr>\<rparr>)"

definition test_client :: "controller SiteClient" where
  "test_client =
     \<lparr>get_device = (\<lambda>m w. spend w (\<lambda>w. (OmadaDevice m, w))),
      get_switch_port = (\<lambda>d p w. spend w (\<lambda>w. (ctl_port w, w))),
      update_switch_port = (\<lambda>d p pid ov w. spend w (\<lambda>w. ((), assign pid w))),
      get_port_profiles = (\<lambda>w. spend w (\<lambda>w. (ctl_profiles w, w)))\<rparr>"

definition test_host :: "controller Host" where
  "test_host =
     \<lparr>get_target_argument = (\<lambda>a w. (Inr (arg_target a), w)),
      get_target_config = (\<lambda>c w. (Inr \<lparr>site = ''Default''\<rparr>, w)),
      to_omada_connection = (\<lambda>c w. (Inr (), w)),
      close_connection = (\<lambda>w. w),
      get_site_client = (\<lambda>s w. (Inr test_client, w)),
      get_device_mac = (\<lambda>sc m w. (Inr m, w)),
      int_of_str = (\<lambda>s. if s = ''3'' then Some 3 else None),
      asyncio_sleep = (\<lambda>n w. w)\<rparr>"

definition test_port :: OmadaSwitchPortDetails where
  "test_port =
     \<lparr>operation = ''switching'', link_speed = 0, duplex = 0, eth_802_1x_control = 2,
      poe_mode = 1, bandwidth_limit_mode = 0, lldp_med_enabled = True,
      spanning_tree_enabled = False, loopback_detect_enabled = True,
      port_isolation_enabled = False, topology_notify_enabled = False,
      raw_data = [(''eeeEnable'', JBool True), (''topoNotifyEnable'', JBool False)],
      profile_id = ''p-default'', has_schedule = False, is_disabled = False\<rparr>"

definition test_profiles :: "OmadaPortProfile list" where
  "test_profiles = [OmadaPortProfile ''All'' ''p-0'', OmadaPortProfile ''Disable'' ''p-1'']"

definition test_controller :: "nat \<Rightarrow> controller" where
  "test_controller budget =
     \<lparr>ctl_port = test_port, ctl_profiles = test_profiles, ctl_budget = budget\<rparr>"

definition test_device :: OmadaDevice where
  "test_device = OmadaDevice ''AA:BB:CC:DD:EE:FF''"

definition test_args :: args where
  "test_args =
     \<lparr>arg_target = ''home'', arg_mac = ''AA:BB:CC:DD:EE:FF'', arg_port = ''3'',
      arg_enable = True, arg_disable = False, arg_apply_schedule = False, arg_dump = False\<rparr>"

section \<open>Properties\<close>

subsection \<open>Running one step\<close>

lemma bind_await_returns:
  "call w = (Inr x, w') \<Longrightarrow>
   io_bind (await rq call) k (tr, w) = k x (tr @ [Call rq Returned], w')"
  by (simp add: io_bind_def await_def)

lemma bind_py_int:
  "int_of_str host s = Some n \<Longrightarrow> io_bind (py_int host s) k st = k n st"
  by (simp add: py_int_def io_bind_def io_return_def)

lemma bind_discard_result:
  "m s = (Inr x, s') \<Longrightarrow> io_bind (io_bind m (\<lambda>result. io_return ())) k s = k () s'"
  by (simp add: io_bind_def io_return_def)

subsection \<open>The override payload\<close>

lemma map_of_optional:
  "map_of (case x of None \<Rightarrow> al | Some v \<Rightarrow> AList.update k (g v) al) k' =
     (if k' = k \<and> x \<noteq> None then map_option g x else map_of al k')"
  by (cases x) (simp_all add: AList.update_conv')

lemma distinct_optional:
  "distinct (map fst al) \<Longrightarrow>
   distinct (map fst (case x of None \<Rightarrow> al | Some v \<Rightarrow> AList.update k (g v) al))"
  by (cases x) (simp_all add: AList.distinct_update)

lemma keys_optional:
  "k \<in> S \<Longrightarrow> set (map fst al) \<subseteq> S \<Longrightarrow>
   set (map fst (case x of None \<Rightarrow> al | Some v \<Rightarrow> AList.update k (g v) al)) \<subseteq> S"
  by (cases x) (auto simp: AList.dom_update)

lemma keys_update:
  "k \<in> S \<Longrightarrow> set (map fst al) \<subseteq> S \<Longrightarrow> set (map fst (AList.update k v al)) \<subseteq> S"
  by (auto simp: AList.dom_update)

lemma preserve_port_settings_distinct: "distinct (map fst (preserve_port_settings pd))"
  unfolding preserve_port_settings_def Let_def
  by (intro distinct_optional) simp


lemma base_keys:
  "set (map fst [(''operation'', JStr (operation pd)),
        (''linkSpeed'', JInt (link_speed pd)),
        (''duplex'', JInt (duplex pd)),
        (''dot1x'', JInt (eth_802_1x_control pd)),
        (''poe'', JInt (poe_mode pd)),
        (''bandWidthCtrlType'', JInt (bandwidth_limit_mode pd)),
        (''lldpMedEnable'', JBool (lldp_med_enabled pd)),
        (''spanningTreeEnable'', JBool (spanning_tree_enabled pd)),
        (''loopbackDetectEnable'', JBool (loopback_detect_enabled pd)),
        (''portIsolationEnable'', JBool (port_isolation_enabled pd))]) \<subseteq>
     set [''operation'', ''linkSpeed'', ''duplex'', ''dot1x'', ''poe'', ''bandWidthCtrlType'',
          ''lldpMedEnable'', ''spanningTreeEnable'', ''loopbackDetectEnable'',
          ''portIsolationEnable'', ''topoNotifyEnable'', ''eeeEnable'',
          ''flowControlEnable'', ''fastLeaveEnable'', ''scheduleEnable'']"
  by simp


lemma preserve_port_settings_keys:
  "set (map fst (preserve_port_settings pd)) \<subseteq>
     set [''operation'', ''linkSpeed'', ''duplex'', ''dot1x'', ''poe'', ''bandWidthCtrlType'',
          ''lldpMedEnable'', ''spanningTreeEnable'', ''loopbackDetectEnable'',
          ''portIsolationEnable'', ''topoNotifyEnable'', ''eeeEnable'',
          ''flowControlEnable'', ''fastLeaveEnable'', ''scheduleEnable'']"
  unfolding preserve_port_settings_def Let_def
  apply (rule keys_optional, simp)
  apply (rule keys_optional, simp)
  apply (rule keys_optional, simp)
  apply (rule keys_optional, simp)
  apply (rule base_keys)
  done



lemma schedule_payload_preserves:
  "preserves_settings pd (AList.update ''scheduleEnable'' v (preserve_port_settings pd))"
proof -
  let ?payload = "AList.update ''scheduleEnable'' v (preserve_port_settings pd)"
  have "distinct (map fst ?payload)"
    by (simp add: AList.distinct_update preserve_port_settings_distinct)
  moreover have "set (map fst ?payload) \<subseteq>
       set [''operation'', ''linkSpeed'', ''duplex'', ''dot1x'', ''poe'', ''bandWidthCtrlType'',
            ''lldpMedEnable'', ''spanningTreeEnable'', ''loopbackDetectEnable'',
            ''portIsolationEnable'', ''topoNotifyEnable'', ''eeeEnable'',
            ''flowControlEnable'', ''fastLeaveEnable'', ''scheduleEnable'']"
    by (rule keys_update [OF _ preserve_port_settings_keys]) simp
  moreover have "map_of ?payload ''operation'' = Some (JStr (operation pd))"
    unfolding preserve_port_settings_def Let_def
    by (simp add: map_of_optional AList.update_conv')
  moreover have "map_of ?payload ''linkSpeed'' = Some (JInt (link_speed pd))"
    unfolding preserve_port_settings_def Let_def
    by (simp add: map_of_optional AList.update_conv')
  moreover have "map_of ?payload ''duplex'' = Some (JInt (duplex pd))"
    unfolding preserve_port_settings_def Let_def
    by (simp add: map_of_optional AList.update_conv')
  moreover have "map_of ?payload ''dot1x'' = Some (JInt (eth_802_1x_control pd))"
    unfolding preserve_port_settings_def Let_def
    by (simp add: map_of_optional AList.update_conv')
  moreover have "map_of ?payload ''poe'' = Some (JInt (poe_mode pd))"
    unfolding preserve_port_settings_def Let_def
    by (simp add: map_of_optional AList.update_conv')
  moreover have "map_of ?payload ''bandWidthCtrlType'' = Some (JInt (bandwidth_limit_mode pd))"
    unfolding preserve_port_settings_def Let_def
    by (simp add: map_of_optional AList.update_conv')
  moreover have "map_of ?payload ''lldpMedEnable'' = Some (JBool (lldp_med_enabled pd))"
    unfolding preserve_port_settings_def Let_def
    by (simp add: map_of_optional AList.update_conv')
  moreover have "map_of ?payload ''spanningTreeEnable'' = Some (JBool (spanning_tree_enabled pd))"
    unfolding preserve_port_settings_def Let_def
    by (simp add: map_of_optional AList.update_conv')
  moreover have "map_of ?payload ''loopbackDetectEnable'' =
      Some (JBool (loopback_detect_enabled pd))"
    unfolding preserve_port_settings_def Let_def
    by (simp add: map_of_optional AList.update_conv')
  moreover have "map_of ?payload ''portIsolationEnable'' =
      Some (JBool (port_isolation_enabled pd))"
    unfolding preserve_port_settings_def Let_def
    by (simp add: map_of_optional AList.update_conv')
  moreover have "map_of ?payload ''topoNotifyEnable'' =
      map_option (\<lambda>_. JBool (topology_notify_enabled pd))
        (map_of (raw_data pd) ''topoNotifyEnable'')"
    unfolding preserve_port_settings_def Let_def
    by (auto simp: map_of_optional AList.update_conv')
  moreover have "map_of ?payload ''eeeEnable'' = map_of (raw_data pd) ''eeeEnable''"
    unfolding preserve_port_settings_def Let_def
    by (auto simp: map_of_optional AList.update_conv' option.map_ident)
  moreover have "map_of ?payload ''flowControlEnable'' =
      map_of (raw_data pd) ''flowControlEnable''"
    unfolding preserve_port_settings_def Let_def
    by (auto simp: map_of_optional AList.update_conv' option.map_ident)
  moreover have "map_of ?payload ''fastLeaveEnable'' = map_of (raw_data pd) ''fastLeaveEnable''"
    unfolding preserve_port_settings_def Let_def
    by (auto simp: map_of_optional AList.update_conv' option.map_ident)
  ultimately show ?thesis
    unfolding preserves_settings_def by blast
qed

lemma schedule_payload_flag:
  "map_of (AList.update ''scheduleEnable'' v (preserve_port_settings pd)) ''scheduleEnable'' =
   Some v"
  by (simp add: AList.update_conv')

subsection \<open>Every run, by cases of what the site client answers\<close>

lemmas run_defs =
  io_bind_def io_return_def io_raise_def await_def print_def emit_def sleep_def

lemma get_disable_profile_id_run:
  "get_disable_profile_id sc (tr, w) =
     (case get_port_profiles sc w of
        (Inl f, w') \<Rightarrow> (Inl (Propagated f), (tr @ [Call GetPortProfiles (Raised f)], w'))
      | (Inr profiles, w') \<Rightarrow>
          (disable_profile_loop profiles, (tr @ [Call GetPortProfiles Returned], w')))"
  by (simp add: get_disable_profile_id_def run_defs split: prod.split sum.split)

lemma disable_port_via_schedule_run:
  "disable_port_via_schedule sc d p a (tr, w) =
     (case get_switch_port sc d p w of
        (Inl f, w1) \<Rightarrow> (Inl (Propagated f), (tr @ [Call (GetSwitchPort d p) (Raised f)], w1))
      | (Inr pd, w1) \<Rightarrow>
          if has_schedule pd \<and> a then
            (let rq = UpdateSwitchPort d p None
                        (Some (AList.update ''scheduleEnable'' (JBool True)
                                 (preserve_port_settings pd)))
             in case update_switch_port sc d p None
                       (Some (AList.update ''scheduleEnable'' (JBool True)
                                (preserve_port_settings pd))) w1 of
                  (Inl f, w2) \<Rightarrow>
                    (Inl (Propagated f),
                     (tr @ [Call (GetSwitchPort d p) Returned, Call rq (Raised f)], w2))
                | (Inr u, w2) \<Rightarrow>
                    (Inr True,
                     (tr @ [Call (GetSwitchPort d p) Returned, Call rq Returned,
                            Print [Lit ''Port '', Num p, Lit '' disabled by enabling schedule'']],
                      w2)))
          else
            (case get_port_profiles sc w1 of
               (Inl f, w2) \<Rightarrow>
                 (Inl (Propagated f),
                  (tr @ [Call (GetSwitchPort d p) Returned, Call GetPortProfiles (Raised f)], w2))
             | (Inr profiles, w2) \<Rightarrow>
                 (case disable_profile_loop profiles of
                    Inl e \<Rightarrow>
                      (Inl e,
                       (tr @ [Call (GetSwitchPort d p) Returned, Call GetPortProfiles Returned],
                        w2))
                  | Inr pid \<Rightarrow>
                      (case update_switch_port sc d p (Some pid) None w2 of
                         (Inl f, w3) \<Rightarrow>
                           (Inl (Propagated f),
                            (tr @ [Call (GetSwitchPort d p) Returned,
                                   Call GetPortProfiles Returned,
                                   Call (UpdateSwitchPort d p (Some pid) None) (Raised f)],
                             w3))
                       | (Inr u, w3) \<Rightarrow>
                           (Inr True,
                            (tr @ [Call (GetSwitchPort d p) Returned,
                                   Call GetPortProfiles Returned,
                                   Call (UpdateSwitchPort d p (Some pid) None) Returned,
                                   Print [Lit ''Port '', Num p, Lit '' disabled via profile'']],
                             w3))))))"
  by (auto simp: disable_port_via_schedule_def get_disable_profile_id_def run_defs Let_def
      split: prod.split sum.split)


lemma enable_port_via_schedule_run:
  "enable_port_via_schedule elapse sc d p (tr, w) =
     (case get_switch_port sc d p w of
        (Inl f, w1) \<Rightarrow> (Inl (Propagated f), (tr @ [Call (GetSwitchPort d p) (Raised f)], w1))
      | (Inr pd, w1) \<Rightarrow>
          if has_schedule pd then
            (let rq = UpdateSwitchPort d p None
                        (Some (AList.update ''scheduleEnable'' (JBool False)
                                 (preserve_port_settings pd)))
             in case update_switch_port sc d p None
                       (Some (AList.update ''scheduleEnable'' (JBool False)
                                (preserve_port_settings pd))) w1 of
                  (Inl f, w2) \<Rightarrow>
                    (Inl (Propagated f),
                     (tr @ [Call (GetSwitchPort d p) Returned, Call rq (Raised f)], w2))
                | (Inr u, w2) \<Rightarrow>
                    (Inr True,
                     (tr @ [Call (GetSwitchPort d p) Returned, Call rq Returned,
                            Print [Lit ''Port '', Num p, Lit '' enabled by disabling schedule'']],
                      w2)))
          else
            (case get_port_profiles sc w1 of
               (Inl f, w2) \<Rightarrow>
                 (Inl (Propagated f),
                  (tr @ [Call (GetSwitchPort d p) Returned, Call GetPortProfiles (Raised f)], w2))
             | (Inr profiles, w2) \<Rightarrow>
                 (case disable_profile_loop profiles of
                    Inl e \<Rightarrow>
                      (Inl e,
                       (tr @ [Call (GetSwitchPort d p) Returned, Call GetPortProfiles Returned],
                        w2))
                  | Inr pid \<Rightarrow>
                      (let head = [Call (GetSwitchPort d p) Returned,
                                   Call GetPortProfiles Returned];
                           swap = UpdateSwitchPort d p (Some pid) None;
                           restore = UpdateSwitchPort d p (Some (profile_id pd)) None
                       in case update_switch_port sc d p (Some pid) None w2 of
                         (Inl f, w3) \<Rightarrow>
                           (Inl (Propagated f), (tr @ head @ [Call swap (Raised f)], w3))
                       | (Inr u, w3) \<Rightarrow>
                           (let slept =
                              head @ [Call swap Returned,
                                      Print [Lit ''Port '', Num p, Lit '' temporarily disabled''],
                                      Sleep 1]
                            in case update_switch_port sc d p (Some (profile_id pd)) None
                                      (elapse 1 w3) of
                              (Inl f, w4) \<Rightarrow>
                                (Inl (Propagated f), (tr @ slept @ [Call restore (Raised f)], w4))
                            | (Inr u, w4) \<Rightarrow>
                                (let restored =
                                   slept @ [Call restore Returned,
                                            Print [Lit ''Port '', Num p,
                                                   Lit '' re-enabled with original profile'']]
                                 in case get_switch_port sc d p w4 of
                                   (Inl f, w5) \<Rightarrow>
                                     (Inl (Propagated f),
                                      (tr @ restored @ [Call (GetSwitchPort d p) (Raised f)], w5))
                                 | (Inr refreshed_port, w5) \<Rightarrow>
                                     (Inr True,
                                      (tr @ restored @
                                         [Call (GetSwitchPort d p) Returned,
                                          Print [Lit ''Port '', Num p, Lit '' status: '',
                                                 Lit (if \<not> is_disabled refreshed_port
                                                      then ''enabled'' else ''disabled'')]],
                                       w5))))))))"
  by (auto simp: enable_port_via_schedule_def get_disable_profile_id_def run_defs Let_def
      split: prod.split sum.split)

lemma disable_at_most_one_update:
  assumes "disable_port_via_schedule sc d p a (tr, w) = (r, (tr', w'))"
  shows "\<exists>new. tr' = tr @ new \<and> length (mutating_calls new) \<le> 1"
  using assms unfolding disable_port_via_schedule_run
  by (auto simp: Let_def mutating_calls_def split: prod.splits sum.splits if_splits)

lemma disable_fail_fast:
  assumes "disable_port_via_schedule sc d p a (tr, w) = (r, (tr', w'))"
  shows "\<exists>new. tr' = tr @ new \<and> fail_fast new r"
  using assms unfolding disable_port_via_schedule_run
  by (auto simp: Let_def split: prod.splits sum.splits if_splits)

lemma enable_fail_fast:
  assumes "enable_port_via_schedule elapse sc d p (tr, w) = (r, (tr', w'))"
  shows "\<exists>new. tr' = tr @ new \<and> fail_fast new r"
  using assms unfolding enable_port_via_schedule_run
  by (auto simp: Let_def split: prod.splits sum.splits if_splits)

subsection \<open>The loop over the profiles\<close>

lemma loop_missing:
  "(\<forall>pr\<in>set profiles. name pr \<noteq> ''Disable'') \<Longrightarrow>
   disable_profile_loop profiles = Inl (ValueError ''Could not find Disable profile'')"
  by (induction profiles) simp_all

lemma loop_first_match:
  "\<exists>pr\<in>set profiles. name pr = ''Disable'' \<Longrightarrow>
   \<exists>i<length profiles.
     name (profiles ! i) = ''Disable'' \<and>
     (\<forall>j<i. name (profiles ! j) \<noteq> ''Disable'') \<and>
     disable_profile_loop profiles = Inr (OmadaPortProfile.profile_id (profiles ! i))"
proof (induction profiles)
  case Nil
  then show ?case by simp
next
  case (Cons pr profiles)
  show ?case
  proof (cases "name pr = ''Disable''")
    case True
    then have "name ((pr # profiles) ! 0) = ''Disable'' \<and>
        (\<forall>j<0. name ((pr # profiles) ! j) \<noteq> ''Disable'') \<and>
        disable_profile_loop (pr # profiles) =
          Inr (OmadaPortProfile.profile_id ((pr # profiles) ! 0))"
      by simp
    then show ?thesis by blast
  next
    case False
    with Cons.prems have "\<exists>q\<in>set profiles. name q = ''Disable''" by auto
    from Cons.IH [OF this] obtain i where i: "i < length profiles"
      "name (profiles ! i) = ''Disable''"
      "\<forall>j<i. name (profiles ! j) \<noteq> ''Disable''"
      "disable_profile_loop profiles = Inr (OmadaPortProfile.profile_id (profiles ! i))"
      by blast
    have "\<forall>j<Suc i. name ((pr # profiles) ! j) \<noteq> ''Disable''"
    proof (intro allI impI)
      fix j assume "j < Suc i"
      then show "name ((pr # profiles) ! j) \<noteq> ''Disable''"
        using False i(3) by (cases j) simp_all
    qed
    with i False have "Suc i < length (pr # profiles) \<and>
        name ((pr # profiles) ! Suc i) = ''Disable'' \<and>
        (\<forall>j<Suc i. name ((pr # profiles) ! j) \<noteq> ''Disable'') \<and>
        disable_profile_loop (pr # profiles) =
          Inr (OmadaPortProfile.profile_id ((pr # profiles) ! Suc i))"
      by simp
    then show ?thesis by blast
  qed
qed

lemma loop_raises_iff:
  "(\<exists>e. disable_profile_loop profiles = Inl e) \<longleftrightarrow>
   (\<forall>pr\<in>set profiles. name pr \<noteq> ''Disable'')"
  by (induction profiles) simp_all

subsection \<open>Evaluation on the test controller\<close>

text \<open>The definitions of the test controller, for evaluation.\<close>

lemmas test_defs =
  test_client_def test_host_def test_port_def test_profiles_def test_controller_def
  test_device_def test_args_def spend_def assign_def

text \<open>The definitions of the command, for evaluation on the test controller.\<close>

lemmas command_defs =
  command_switch_port_def async_with_def py_int_def dump_raw_data_def
  enable_port_via_schedule_def disable_port_via_schedule_def get_disable_profile_id_def
  io_bind_def io_return_def io_raise_def await_def print_def emit_def sleep_def

subsection \<open>Enable on a port without a schedule\<close>

text \<open>
  Claim C1. On a port with \<open>has_schedule = False\<close>, when the calls return and the lookup
  finds the ``Disable'' profile, the enable operation issues exactly two
  \<^verbatim>\<open>update_switch_port\<close> calls: the first assigns the id of the ``Disable'' profile, the
  second the profile id of the port details read before any change. A sleep of one unit
  lies between the two calls; afterwards the port is read again and reported as enabled
  or disabled.
\<close>

theorem enable_without_schedule:
  assumes "get_switch_port sc d p w0 = (Inr pd, w1)"
    and "\<not> has_schedule pd"
    and "get_port_profiles sc w1 = (Inr profiles, w2)"
    and "disable_profile_loop profiles = Inr pid"
    and "update_switch_port sc d p (Some pid) None w2 = (Inr (), w3)"
    and "update_switch_port sc d p (Some (profile_id pd)) None (elapse 1 w3) = (Inr (), w4)"
    and "get_switch_port sc d p w4 = (Inr pd', w5)"
  shows "let new = [Call (GetSwitchPort d p) Returned,
                    Call GetPortProfiles Returned,
                    Call (UpdateSwitchPort d p (Some pid) None) Returned,
                    Print [Lit ''Port '', Num p, Lit '' temporarily disabled''],
                    Sleep 1,
                    Call (UpdateSwitchPort d p (Some (profile_id pd)) None) Returned,
                    Print [Lit ''Port '', Num p, Lit '' re-enabled with original profile''],
                    Call (GetSwitchPort d p) Returned,
                    Print [Lit ''Port '', Num p, Lit '' status: '',
                           Lit (if is_disabled pd' then ''disabled'' else ''enabled'')]]
         in enable_port_via_schedule elapse sc d p (tr, w0) = (Inr True, (tr @ new, w5)) \<and>
            mutating_calls new =
              [Call (UpdateSwitchPort d p (Some pid) None) Returned,
               Call (UpdateSwitchPort d p (Some (profile_id pd)) None) Returned]"
  using assms
  by (simp add: enable_port_via_schedule_run Let_def mutating_calls_def)

theorem enable_without_schedule_witness:
  "\<not> has_schedule test_port \<and>
   disable_profile_loop test_profiles = Inr ''p-1'' \<and>
   profile_id test_port = ''p-default'' \<and>
   enable_port_via_schedule (asyncio_sleep test_host) test_client test_device 3
       ([], test_controller 5) =
     (Inr True,
      ([Call (GetSwitchPort test_device 3) Returned,
        Call GetPortProfiles Returned,
        Call (UpdateSwitchPort test_device 3 (Some ''p-1'') None) Returned,
        Print [Lit ''Port '', Num 3, Lit '' temporarily disabled''],
        Sleep 1,
        Call (UpdateSwitchPort test_device 3 (Some ''p-default'') None) Returned,
        Print [Lit ''Port '', Num 3, Lit '' re-enabled with original profile''],
        Call (GetSwitchPort test_device 3) Returned,
        Print [Lit ''Port '', Num 3, Lit '' status: '', Lit ''enabled'']],
       test_controller 0))"
  using enable_without_schedule
    [of test_client test_device 3 "test_controller 5" test_port "test_controller 4"
        test_profiles "test_controller 3" "''p-1''"
        "(test_controller 2)\<lparr>ctl_port := test_port\<lparr>profile_id := ''p-1'', is_disabled := True\<rparr>\<rparr>"
        "asyncio_sleep test_host" "test_controller 1" test_port "test_controller 0" "[]"]
  by (simp add: test_defs Let_def)

subsection \<open>Enable on a port with a schedule\<close>

text \<open>
  Claim C2. On a port with \<open>has_schedule = True\<close>, when the calls return, the enable
  operation issues exactly one \<^verbatim>\<open>update_switch_port\<close> call. It passes no profile id; its
  override payload sets \<^verbatim>\<open>scheduleEnable\<close> to false and preserves the port's other
  settings, the optional ones where the raw data has them. No profile lookup is made.
\<close>

theorem enable_with_schedule:
  assumes "get_switch_port sc d p w0 = (Inr pd, w1)"
    and "has_schedule pd"
    and "payload = AList.update ''scheduleEnable'' (JBool False) (preserve_port_settings pd)"
    and "update_switch_port sc d p None (Some payload) w1 = (Inr (), w2)"
  shows "let new = [Call (GetSwitchPort d p) Returned,
                    Call (UpdateSwitchPort d p None (Some payload)) Returned,
                    Print [Lit ''Port '', Num p, Lit '' enabled by disabling schedule'']]
         in enable_port_via_schedule elapse sc d p (tr, w0) = (Inr True, (tr @ new, w2)) \<and>
            mutating_calls new = [Call (UpdateSwitchPort d p None (Some payload)) Returned] \<and>
            filter is_profile_lookup new = [] \<and>
            map_of payload ''scheduleEnable'' = Some (JBool False) \<and>
            preserves_settings pd payload"
  using assms
  by (simp add: enable_port_via_schedule_run Let_def mutating_calls_def
      schedule_payload_flag schedule_payload_preserves)

theorem enable_with_schedule_witness:
  "has_schedule (test_port\<lparr>has_schedule := True\<rparr>) \<and>
   enable_port_via_schedule (asyncio_sleep test_host) test_client test_device 3
       ([], (test_controller 2)\<lparr>ctl_port := test_port\<lparr>has_schedule := True\<rparr>\<rparr>) =
     (Inr True,
      ([Call (GetSwitchPort test_device 3) Returned,
        Call (UpdateSwitchPort test_device 3 None
               (Some [(''operation'', JStr ''switching''), (''linkSpeed'', JInt 0),
                      (''duplex'', JInt 0), (''dot1x'', JInt 2), (''poe'', JInt 1),
                      (''bandWidthCtrlType'', JInt 0), (''lldpMedEnable'', JBool True),
                      (''spanningTreeEnable'', JBool False),
                      (''loopbackDetectEnable'', JBool True),
                      (''portIsolationEnable'', JBool False),
                      (''topoNotifyEnable'', JBool False), (''eeeEnable'', JBool True),
                      (''scheduleEnable'', JBool False)])) Returned,
        Print [Lit ''Port '', Num 3, Lit '' enabled by disabling schedule'']],
       (test_controller 0)\<lparr>ctl_port := test_port\<lparr>has_schedule := True\<rparr>\<rparr>))"
  using enable_with_schedule
    [of test_client test_device 3
        "(test_controller 2)\<lparr>ctl_port := test_port\<lparr>has_schedule := True\<rparr>\<rparr>"
        "test_port\<lparr>has_schedule := True\<rparr>"
        "(test_controller 1)\<lparr>ctl_port := test_port\<lparr>has_schedule := True\<rparr>\<rparr>"
        "AList.update ''scheduleEnable'' (JBool False)
           (preserve_port_settings (test_port\<lparr>has_schedule := True\<rparr>))"
        "(test_controller 0)\<lparr>ctl_port := test_port\<lparr>has_schedule := True\<rparr>\<rparr>"
        "asyncio_sleep test_host" "[]"]
  by (simp add: test_defs Let_def preserve_port_settings_def)

subsection \<open>Disable through the schedule\<close>

text \<open>
  Claim C3. On a port with \<open>has_schedule = True\<close>, the disable operation with
  \<open>apply_schedule = True\<close> issues, when the calls return, exactly one
  \<^verbatim>\<open>update_switch_port\<close> call. Its override payload sets \<^verbatim>\<open>scheduleEnable\<close> to true and
  preserves the port's settings; no profile is looked up or assigned.
\<close>

theorem disable_with_schedule:
  assumes "get_switch_port sc d p w0 = (Inr pd, w1)"
    and "has_schedule pd"
    and "payload = AList.update ''scheduleEnable'' (JBool True) (preserve_port_settings pd)"
    and "update_switch_port sc d p None (Some payload) w1 = (Inr (), w2)"
  shows "let new = [Call (GetSwitchPort d p) Returned,
                    Call (UpdateSwitchPort d p None (Some payload)) Returned,
                    Print [Lit ''Port '', Num p, Lit '' disabled by enabling schedule'']]
         in disable_port_via_schedule sc d p True (tr, w0) = (Inr True, (tr @ new, w2)) \<and>
            mutating_calls new = [Call (UpdateSwitchPort d p None (Some payload)) Returned] \<and>
            filter is_profile_lookup new = [] \<and>
            map_of payload ''scheduleEnable'' = Some (JBool True) \<and>
            preserves_settings pd payload"
  using assms
  by (simp add: disable_port_via_schedule_run Let_def mutating_calls_def
      schedule_payload_flag schedule_payload_preserves)

theorem disable_with_schedule_witness:
  "has_schedule (test_port\<lparr>has_schedule := True\<rparr>) \<and>
   disable_port_via_schedule test_client test_device 3 True
       ([], (test_controller 2)\<lparr>ctl_port := test_port\<lparr>has_schedule := True\<rparr>\<rparr>) =
     (Inr True,
      ([Call (GetSwitchPort test_device 3) Returned,
        Call (UpdateSwitchPort test_device 3 None
               (Some [(''operation'', JStr ''switching''), (''linkSpeed'', JInt 0),
                      (''duplex'', JInt 0), (''dot1x'', JInt 2), (''poe'', JInt 1),
                      (''bandWidthCtrlType'', JInt 0), (''lldpMedEnable'', JBool True),
                      (''spanningTreeEnable'', JBool False),
                      (''loopbackDetectEnable'', JBool True),
                      (''portIsolationEnable'', JBool False),
                      (''topoNotifyEnable'', JBool False), (''eeeEnable'', JBool True),
                      (''scheduleEnable'', JBool True)])) Returned,
        Print [Lit ''Port '', Num 3, Lit '' disabled by enabling schedule'']],
       (test_controller 0)\<lparr>ctl_port := test_port\<lparr>has_schedule := True\<rparr>\<rparr>))"
  using disable_with_schedule
    [of test_client test_device 3
        "(test_controller 2)\<lparr>ctl_port := test_port\<lparr>has_schedule := True\<rparr>\<rparr>"
        "test_port\<lparr>has_schedule := True\<rparr>"
        "(test_controller 1)\<lparr>ctl_port := test_port\<lparr>has_schedule := True\<rparr>\<rparr>"
        "AList.update ''scheduleEnable'' (JBool True)
           (preserve_port_settings (test_port\<lparr>has_schedule := True\<rparr>))"
        "(test_controller 0)\<lparr>ctl_port := test_port\<lparr>has_schedule := True\<rparr>\<rparr>"
        "[]"]
  by (simp add: test_defs Let_def preserve_port_settings_def)

subsection \<open>Disable through the profile\<close>

text \<open>
  Claim C4. With \<open>apply_schedule = False\<close>, or on a port without a schedule, the disable
  operation issues, when the calls return and the ``Disable'' profile is found, exactly
  one \<^verbatim>\<open>update_switch_port\<close> call, which assigns the id of the ``Disable'' profile. No
  restoring call follows: the update is the last call of the run.
\<close>

theorem disable_via_profile:
  assumes "get_switch_port sc d p w0 = (Inr pd, w1)"
    and "\<not> apply_sched \<or> \<not> has_schedule pd"
    and "get_port_profiles sc w1 = (Inr profiles, w2)"
    and "disable_profile_loop profiles = Inr pid"
    and "update_switch_port sc d p (Some pid) None w2 = (Inr (), w3)"
  shows "let new = [Call (GetSwitchPort d p) Returned,
                    Call GetPortProfiles Returned,
                    Call (UpdateSwitchPort d p (Some pid) None) Returned,
                    Print [Lit ''Port '', Num p, Lit '' disabled via profile'']]
         in disable_port_via_schedule sc d p apply_sched (tr, w0) =
              (Inr True, (tr @ new, w3)) \<and>
            mutating_calls new = [Call (UpdateSwitchPort d p (Some pid) None) Returned]"
  using assms
  by (auto simp: disable_port_via_schedule_run Let_def mutating_calls_def)

theorem disable_via_profile_witness:
  "disable_profile_loop test_profiles = Inr ''p-1'' \<and>
   disable_port_via_schedule test_client test_device 3 True ([], test_controller 3) =
     (Inr True,
      ([Call (GetSwitchPort test_device 3) Returned,
        Call GetPortProfiles Returned,
        Call (UpdateSwitchPort test_device 3 (Some ''p-1'') None) Returned,
        Print [Lit ''Port '', Num 3, Lit '' disabled via profile'']],
       (test_controller 0)
         \<lparr>ctl_port := test_port\<lparr>profile_id := ''p-1'', is_disabled := True\<rparr>\<rparr>))"
  using disable_via_profile
    [of test_client test_device 3 "test_controller 3" test_port "test_controller 2" True
        test_profiles "test_controller 1" "''p-1''"
        "(test_controller 0)
           \<lparr>ctl_port := test_port\<lparr>profile_id := ''p-1'', is_disabled := True\<rparr>\<rparr>" "[]"]
  by (simp add: test_defs Let_def)

subsection \<open>No profile named Disable\<close>

text \<open>
  Claim C5. When the list of profiles the site client returns has no profile named
  exactly ``Disable'', the lookup raises the lookup error, and so do enable on a port
  without a schedule and disable on its profile path, before any
  \<^verbatim>\<open>update_switch_port\<close> call is issued. Conversely, on a list the site client returned,
  the lookup raises only in that case.
\<close>

theorem missing_disable_profile:
  assumes "get_switch_port sc d p w0 = (Inr pd, w1)"
    and "get_port_profiles sc w1 = (Inr profiles, w2)"
  shows "let err = ValueError ''Could not find Disable profile'';
             new = [Call (GetSwitchPort d p) Returned, Call GetPortProfiles Returned]
         in ((\<exists>e. fst (get_disable_profile_id sc (tr, w1)) = Inl e) \<longleftrightarrow>
               (\<forall>pr\<in>set profiles. name pr \<noteq> ''Disable'')) \<and>
            ((\<forall>pr\<in>set profiles. name pr \<noteq> ''Disable'') \<longrightarrow>
               get_disable_profile_id sc (tr, w1) =
                 (Inl err, (tr @ [Call GetPortProfiles Returned], w2))) \<and>
            ((\<forall>pr\<in>set profiles. name pr \<noteq> ''Disable'') \<and> \<not> has_schedule pd \<longrightarrow>
               enable_port_via_schedule elapse sc d p (tr, w0) = (Inl err, (tr @ new, w2))) \<and>
            ((\<forall>pr\<in>set profiles. name pr \<noteq> ''Disable'') \<and>
             (\<not> apply_sched \<or> \<not> has_schedule pd) \<longrightarrow>
               disable_port_via_schedule sc d p apply_sched (tr, w0) =
                 (Inl err, (tr @ new, w2))) \<and>
            mutating_calls new = []"
proof -
  have "(\<exists>e. fst (get_disable_profile_id sc (tr, w1)) = Inl e) \<longleftrightarrow>
        (\<forall>pr\<in>set profiles. name pr \<noteq> ''Disable'')"
    using assms(2) by (simp add: get_disable_profile_id_run loop_raises_iff)
  moreover have "get_disable_profile_id sc (tr, w1) =
      (Inl (ValueError ''Could not find Disable profile''),
       (tr @ [Call GetPortProfiles Returned], w2))"
    if "\<forall>pr\<in>set profiles. name pr \<noteq> ''Disable''"
    using assms(2) loop_missing [OF that] by (simp add: get_disable_profile_id_run)
  moreover have "enable_port_via_schedule elapse sc d p (tr, w0) =
      (Inl (ValueError ''Could not find Disable profile''),
       (tr @ [Call (GetSwitchPort d p) Returned, Call GetPortProfiles Returned], w2))"
    if "\<forall>pr\<in>set profiles. name pr \<noteq> ''Disable''" and "\<not> has_schedule pd"
    using assms that(2) loop_missing [OF that(1)] by (simp add: enable_port_via_schedule_run)
  moreover have "disable_port_via_schedule sc d p apply_sched (tr, w0) =
      (Inl (ValueError ''Could not find Disable profile''),
       (tr @ [Call (GetSwitchPort d p) Returned, Call GetPortProfiles Returned], w2))"
    if "\<forall>pr\<in>set profiles. name pr \<noteq> ''Disable''" and "\<not> apply_sched \<or> \<not> has_schedule pd"
    using assms that(2) loop_missing [OF that(1)]
    by (auto simp: disable_port_via_schedule_run)
  moreover have "mutating_calls
      [Call (GetSwitchPort d p) Returned, Call GetPortProfiles Returned] = []"
    by (simp add: mutating_calls_def)
  ultimately show ?thesis
    unfolding Let_def by blast
qed

theorem missing_disable_profile_witness:
  "name (OmadaPortProfile ''All'' ''p-0'') \<noteq> ''Disable'' \<and>
   \<not> has_schedule test_port \<and>
   get_disable_profile_id test_client
       ([], (test_controller 4)\<lparr>ctl_profiles := [OmadaPortProfile ''All'' ''p-0'']\<rparr>) =
     (Inl (ValueError ''Could not find Disable profile''),
      ([Call GetPortProfiles Returned],
       (test_controller 3)\<lparr>ctl_profiles := [OmadaPortProfile ''All'' ''p-0'']\<rparr>)) \<and>
   enable_port_via_schedule (asyncio_sleep test_host) test_client test_device 3
       ([], (test_controller 5)\<lparr>ctl_profiles := [OmadaPortProfile ''All'' ''p-0'']\<rparr>) =
     (Inl (ValueError ''Could not find Disable profile''),
      ([Call (GetSwitchPort test_device 3) Returned, Call GetPortProfiles Returned],
       (test_controller 3)\<lparr>ctl_profiles := [OmadaPortProfile ''All'' ''p-0'']\<rparr>)) \<and>
   disable_port_via_schedule test_client test_device 3 False
       ([], (test_controller 5)\<lparr>ctl_profiles := [OmadaPortProfile ''All'' ''p-0'']\<rparr>) =
     (Inl (ValueError ''Could not find Disable profile''),
      ([Call (GetSwitchPort test_device 3) Returned, Call GetPortProfiles Returned],
       (test_controller 3)\<lparr>ctl_profiles := [OmadaPortProfile ''All'' ''p-0'']\<rparr>))"
  using missing_disable_profile
    [of test_client test_device 3
        "(test_controller 5)\<lparr>ctl_profiles := [OmadaPortProfile ''All'' ''p-0'']\<rparr>"
        test_port
        "(test_controller 4)\<lparr>ctl_profiles := [OmadaPortProfile ''All'' ''p-0'']\<rparr>"
        "[OmadaPortProfile ''All'' ''p-0'']"
        "(test_controller 3)\<lparr>ctl_profiles := [OmadaPortProfile ''All'' ''p-0'']\<rparr>"
        "[]" "asyncio_sleep test_host" False]
  by (simp add: test_defs Let_def)

subsection \<open>The original profile\<close>

text \<open>
  Claim C6. In every run of the enable operation the first thing issued is the read of
  the port. If that read raises, the run ends there and no \<^verbatim>\<open>update_switch_port\<close> call is
  issued. If it returns port details without a schedule, the calls that follow are at most
  the assignment of some profile and then the assignment of the profile id of those
  first port details: the restoring call is made of the device, the port and that
  identifier alone, whatever the site client did in between.
\<close>

theorem original_profile_captured:
  assumes "enable_port_via_schedule elapse sc d p (tr, w) = (r, (tr', w'))"
  shows "(\<forall>f w1. get_switch_port sc d p w = (Inl f, w1) \<longrightarrow>
            r = Inl (Propagated f) \<and> tr' = tr @ [Call (GetSwitchPort d p) (Raised f)] \<and>
            w' = w1) \<and>
         (\<forall>pd w1. get_switch_port sc d p w = (Inr pd, w1) \<longrightarrow>
            (\<exists>new. tr' = tr @ Call (GetSwitchPort d p) Returned # new \<and>
               (if has_schedule pd then
                  \<exists>oc. mutating_calls new =
                    [Call (UpdateSwitchPort d p None
                       (Some (AList.update ''scheduleEnable'' (JBool False)
                                (preserve_port_settings pd)))) oc]
                else
                  mutating_calls new = [] \<or>
                  (\<exists>pid f. mutating_calls new =
                     [Call (UpdateSwitchPort d p (Some pid) None) (Raised f)]) \<or>
                  (\<exists>pid oc. mutating_calls new =
                     [Call (UpdateSwitchPort d p (Some pid) None) Returned,
                      Call (UpdateSwitchPort d p (Some (profile_id pd)) None) oc]))))"
proof -
  have raised: "r = Inl (Propagated f) \<and>
      tr' = tr @ [Call (GetSwitchPort d p) (Raised f)] \<and> w' = w1"
    if "get_switch_port sc d p w = (Inl f, w1)" for f w1
    using assms that by (auto simp: enable_port_via_schedule_run)
  have returned: "\<exists>new. tr' = tr @ Call (GetSwitchPort d p) Returned # new \<and>
      (if has_schedule pd then
         \<exists>oc. mutating_calls new =
           [Call (UpdateSwitchPort d p None
              (Some (AList.update ''scheduleEnable'' (JBool False)
                       (preserve_port_settings pd)))) oc]
       else
         mutating_calls new = [] \<or>
         (\<exists>pid f. mutating_calls new =
            [Call (UpdateSwitchPort d p (Some pid) None) (Raised f)]) \<or>
         (\<exists>pid oc. mutating_calls new =
            [Call (UpdateSwitchPort d p (Some pid) None) Returned,
             Call (UpdateSwitchPort d p (Some (profile_id pd)) None) oc]))"
    if read: "get_switch_port sc d p w = (Inr pd, w1)" for pd w1
  proof (cases "has_schedule pd")
    case True
    with assms read show ?thesis
      by (auto simp: enable_port_via_schedule_run Let_def mutating_calls_def
          split: prod.splits sum.splits)
  next
    case False
    with assms read show ?thesis
      by (auto simp: enable_port_via_schedule_run Let_def mutating_calls_def
          split: prod.splits sum.splits)
  qed
  from raised returned show ?thesis
    by blast
qed


theorem original_profile_captured_witness:
  "get_switch_port test_client test_device 3 (test_controller 5) =
     (Inr test_port, test_controller 4) \<and>
   \<not> has_schedule test_port \<and>
   (\<exists>new.
      [Call (GetSwitchPort test_device 3) Returned,
       Call GetPortProfiles Returned,
       Call (UpdateSwitchPort test_device 3 (Some ''p-1'') None) Returned,
       Print [Lit ''Port '', Num 3, Lit '' temporarily disabled''],
       Sleep 1,
       Call (UpdateSwitchPort test_device 3 (Some ''p-default'') None) Returned,
       Print [Lit ''Port '', Num 3, Lit '' re-enabled with original profile''],
       Call (GetSwitchPort test_device 3) Returned,
       Print [Lit ''Port '', Num 3, Lit '' status: '', Lit ''enabled'']] =
        [] @ Call (GetSwitchPort test_device 3) Returned # new \<and>
      (mutating_calls new = [] \<or>
       (\<exists>pid f. mutating_calls new =
          [Call (UpdateSwitchPort test_device 3 (Some pid) None) (Raised f)]) \<or>
       (\<exists>pid oc. mutating_calls new =
          [Call (UpdateSwitchPort test_device 3 (Some pid) None) Returned,
           Call (UpdateSwitchPort test_device 3 (Some (profile_id test_port)) None) oc])))"
proof -
  have run: "enable_port_via_schedule (asyncio_sleep test_host) test_client test_device 3
       ([], test_controller 5) =
     (Inr True,
      ([Call (GetSwitchPort test_device 3) Returned,
        Call GetPortProfiles Returned,
        Call (UpdateSwitchPort test_device 3 (Some ''p-1'') None) Returned,
        Print [Lit ''Port '', Num 3, Lit '' temporarily disabled''],
        Sleep 1,
        Call (UpdateSwitchPort test_device 3 (Some ''p-default'') None) Returned,
        Print [Lit ''Port '', Num 3, Lit '' re-enabled with original profile''],
        Call (GetSwitchPort test_device 3) Returned,
        Print [Lit ''Port '', Num 3, Lit '' status: '', Lit ''enabled'']],
       test_controller 0))"
    by (simp add: enable_port_via_schedule_run test_defs Let_def)
  have read: "get_switch_port test_client test_device 3 (test_controller 5) =
      (Inr test_port, test_controller 4)"
    by (simp add: test_defs)
  have plain: "\<not> has_schedule test_port"
    by (simp add: test_defs)
  note original_profile_captured [OF run, THEN conjunct2, rule_format, OF read]
  with read plain show ?thesis
    by simp
qed

subsection \<open>Failures of the site client\<close>

text \<open>
  Claim C7. In every run of enable and of disable, a call to the site client that raised
  is the last thing the run did, and its exception is the result of the run: nothing is
  caught, retried or compensated. In particular, when the first update of the two-call
  enable sequence returned and the restoring update raises, the run ends with that
  exception right after the restoring call: the last update that took effect is the
  assignment of the ``Disable'' profile.
\<close>

theorem failures_propagate:
  "(\<exists>new. fst (snd (enable_port_via_schedule elapse sc d p (tr, w))) = tr @ new \<and>
           fail_fast new (fst (enable_port_via_schedule elapse sc d p (tr, w)))) \<and>
   (\<exists>new. fst (snd (disable_port_via_schedule sc d p a (tr, w))) = tr @ new \<and>
           fail_fast new (fst (disable_port_via_schedule sc d p a (tr, w)))) \<and>
   (get_switch_port sc d p w = (Inr pd, w1) \<and> \<not> has_schedule pd \<and>
    get_port_profiles sc w1 = (Inr profiles, w2) \<and>
    disable_profile_loop profiles = Inr pid \<and>
    update_switch_port sc d p (Some pid) None w2 = (Inr (), w3) \<and>
    update_switch_port sc d p (Some (profile_id pd)) None (elapse 1 w3) = (Inl f, w4) \<longrightarrow>
    enable_port_via_schedule elapse sc d p (tr, w) =
      (Inl (Propagated f),
       (tr @ [Call (GetSwitchPort d p) Returned,
              Call GetPortProfiles Returned,
              Call (UpdateSwitchPort d p (Some pid) None) Returned,
              Print [Lit ''Port '', Num p, Lit '' temporarily disabled''],
              Sleep 1,
              Call (UpdateSwitchPort d p (Some (profile_id pd)) None) (Raised f)],
        w4)))"
proof -
  obtain r tr' w' where en: "enable_port_via_schedule elapse sc d p (tr, w) = (r, (tr', w'))"
    by (metis surj_pair)
  obtain r2 tr2 w2' where dis: "disable_port_via_schedule sc d p a (tr, w) = (r2, (tr2, w2'))"
    by (metis surj_pair)
  from enable_fail_fast [OF en] en
  have "\<exists>new. fst (snd (enable_port_via_schedule elapse sc d p (tr, w))) = tr @ new \<and>
           fail_fast new (fst (enable_port_via_schedule elapse sc d p (tr, w)))"
    by simp
  moreover from disable_fail_fast [OF dis] dis
  have "\<exists>new. fst (snd (disable_port_via_schedule sc d p a (tr, w))) = tr @ new \<and>
           fail_fast new (fst (disable_port_via_schedule sc d p a (tr, w)))"
    by simp
  moreover have "enable_port_via_schedule elapse sc d p (tr, w) =
      (Inl (Propagated f),
       (tr @ [Call (GetSwitchPort d p) Returned,
              Call GetPortProfiles Returned,
              Call (UpdateSwitchPort d p (Some pid) None) Returned,
              Print [Lit ''Port '', Num p, Lit '' temporarily disabled''],
              Sleep 1,
              Call (UpdateSwitchPort d p (Some (profile_id pd)) None) (Raised f)],
        w4))"
    if "get_switch_port sc d p w = (Inr pd, w1)" "\<not> has_schedule pd"
      "get_port_profiles sc w1 = (Inr profiles, w2)"
      "disable_profile_loop profiles = Inr pid"
      "update_switch_port sc d p (Some pid) None w2 = (Inr (), w3)"
      "update_switch_port sc d p (Some (profile_id pd)) None (elapse 1 w3) = (Inl f, w4)"
    using that by (simp add: enable_port_via_schedule_run Let_def)
  ultimately show ?thesis
    by blast
qed

theorem failures_propagate_witness:
  "\<not> has_schedule test_port \<and>
   enable_port_via_schedule (asyncio_sleep test_host) test_client test_device 3
       ([], test_controller 3) =
     (Inl (Propagated (Failure ''timed out'')),
      ([Call (GetSwitchPort test_device 3) Returned,
        Call GetPortProfiles Returned,
        Call (UpdateSwitchPort test_device 3 (Some ''p-1'') None) Returned,
        Print [Lit ''Port '', Num 3, Lit '' temporarily disabled''],
        Sleep 1,
        Call (UpdateSwitchPort test_device 3 (Some ''p-default'') None)
          (Raised (Failure ''timed out''))],
       (test_controller 0)
         \<lparr>ctl_port := test_port\<lparr>profile_id := ''p-1'', is_disabled := True\<rparr>\<rparr>))"
  using failures_propagate
    [of "asyncio_sleep test_host" test_client test_device 3 "[]" "test_controller 3" False
        test_port "test_controller 2" test_profiles "test_controller 1" "''p-1''"
        "(test_controller 0)
           \<lparr>ctl_port := test_port\<lparr>profile_id := ''p-1'', is_disabled := True\<rparr>\<rparr>"
        "Failure ''timed out''"
        "(test_controller 0)
           \<lparr>ctl_port := test_port\<lparr>profile_id := ''p-1'', is_disabled := True\<rparr>\<rparr>"]
  by (simp add: test_defs)

subsection \<open>The exit code\<close>

text \<open>
  Claim C8, amended. In every invocation in which the steps before the toggle return, the
  enable or the disable branch runs to completion without an exception and, when the dump
  flag is set, the \<^verbatim>\<open>get_switch_port\<close> read made for the dump returns as well, the
  command returns exit code 0, whichever way the port was toggled. The connection is
  closed last.
\<close>

theorem exit_code_zero:
  assumes "get_target_argument host a w0 = (Inr controller, w1)"
    and "get_target_config host controller w1 = (Inr config, w2)"
    and "to_omada_connection host config w2 = (Inr (), w3)"
    and "get_site_client host (site config) w3 = (Inr sc, w4)"
    and "get_device_mac host sc (arg_mac a) w4 = (Inr m, w5)"
    and "get_device sc m w5 = (Inr d, w6)"
    and "int_of_str host (arg_port a) = Some p"
    and "prelude = [Call GetTargetArgument Returned,
                    Call (GetTargetConfig controller) Returned,
                    Call (ToOmadaConnection config) Returned,
                    Call (GetSiteClient (site config)) Returned,
                    Call (GetDeviceMac (arg_mac a)) Returned,
                    Call (GetDevice m) Returned]"
    and "arg_enable a \<or> arg_disable a"
    and "(if arg_enable a then enable_port_via_schedule (asyncio_sleep host) sc d p
          else disable_port_via_schedule sc d p (arg_apply_schedule a)) (tr @ prelude, w6) =
         (Inr b, (tr7, w7))"
    and "arg_dump a \<longrightarrow> get_switch_port sc d p w7 = (Inr pd, w8)"
  shows "command_switch_port host a (tr, w0) =
           (Inr 0,
            (if arg_dump a
             then (tr7 @ [Call (GetSwitchPort d p) Returned, DumpRawData pd, CloseConnection],
                   close_connection host w8)
             else (tr7 @ [CloseConnection], close_connection host w7)))"
proof -
  let ?toggle = "if arg_enable a then
            io_bind (enable_port_via_schedule (asyncio_sleep host) sc d p)
              (\<lambda>result. io_return ())
          else if arg_disable a then
            io_bind (disable_port_via_schedule sc d p (arg_apply_schedule a))
              (\<lambda>result. io_return ())
          else io_return ()"
  have toggle: "io_bind ?toggle k (tr @ prelude, w6) = k () (tr7, w7)" for k :: "unit \<Rightarrow> (int, 'a) io"
    using assms(9,10) by (auto simp: bind_discard_result)
  have dumped: "io_bind
         (if arg_dump a then
            io_bind (await (GetSwitchPort d p) (get_switch_port sc d p))
              (\<lambda>port_details. dump_raw_data a port_details)
          else io_return ()) (\<lambda>_. io_return 0) (tr7, w7) =
        (Inr 0,
         (if arg_dump a
          then (tr7 @ [Call (GetSwitchPort d p) Returned, DumpRawData pd], w8)
          else (tr7, w7)))"
    using assms(11)
    by (simp add: io_bind_def await_def dump_raw_data_def emit_def io_return_def)
  show ?thesis
    using assms(1-8)
    by (simp add: command_switch_port_def async_with_def bind_await_returns bind_py_int
        toggle [unfolded assms(8)] dumped)
qed


theorem exit_code_zero_witness:
  "(arg_enable (test_args\<lparr>arg_dump := True\<rparr>) \<or> arg_disable (test_args\<lparr>arg_dump := True\<rparr>)) \<and>
   arg_dump (test_args\<lparr>arg_dump := True\<rparr>) \<and>
   get_switch_port test_client test_device 3 (test_controller 1) =
     (Inr test_port, test_controller 0) \<and>
   command_switch_port test_host (test_args\<lparr>arg_dump := True\<rparr>) ([], test_controller 7) =
     (Inr 0,
      ([Call GetTargetArgument Returned,
        Call (GetTargetConfig ''home'') Returned,
        Call (ToOmadaConnection \<lparr>site = ''Default''\<rparr>) Returned,
        Call (GetSiteClient ''Default'') Returned,
        Call (GetDeviceMac ''AA:BB:CC:DD:EE:FF'') Returned,
        Call (GetDevice ''AA:BB:CC:DD:EE:FF'') Returned,
        Call (GetSwitchPort test_device 3) Returned,
        Call GetPortProfiles Returned,
        Call (UpdateSwitchPort test_device 3 (Some ''p-1'') None) Returned,
        Print [Lit ''Port '', Num 3, Lit '' temporarily disabled''],
        Sleep 1,
        Call (UpdateSwitchPort test_device 3 (Some ''p-default'') None) Returned,
        Print [Lit ''Port '', Num 3, Lit '' re-enabled with original profile''],
        Call (GetSwitchPort test_device 3) Returned,
        Print [Lit ''Port '', Num 3, Lit '' status: '', Lit ''enabled''],
        Call (GetSwitchPort test_device 3) Returned,
        DumpRawData test_port,
        CloseConnection],
       test_controller 0))"
proof -
  let ?a = "test_args\<lparr>arg_dump := True\<rparr>"
  let ?prelude = "[Call GetTargetArgument Returned,
        Call (GetTargetConfig ''home'') Returned,
        Call (ToOmadaConnection \<lparr>site = ''Default''\<rparr>) Returned,
        Call (GetSiteClient (site \<lparr>site = ''Default''\<rparr>)) Returned,
        Call (GetDeviceMac (arg_mac ?a)) Returned,
        Call (GetDevice ''AA:BB:CC:DD:EE:FF'') Returned]"
  let ?tr7 = "[Call GetTargetArgument Returned,
        Call (GetTargetConfig ''home'') Returned,
        Call (ToOmadaConnection \<lparr>site = ''Default''\<rparr>) Returned,
        Call (GetSiteClient ''Default'') Returned,
        Call (GetDeviceMac ''AA:BB:CC:DD:EE:FF'') Returned,
        Call (GetDevice ''AA:BB:CC:DD:EE:FF'') Returned,
        Call (GetSwitchPort test_device 3) Returned,
        Call GetPortProfiles Returned,
        Call (UpdateSwitchPort test_device 3 (Some ''p-1'') None) Returned,
        Print [Lit ''Port '', Num 3, Lit '' temporarily disabled''],
        Sleep 1,
        Call (UpdateSwitchPort test_device 3 (Some ''p-default'') None) Returned,
        Print [Lit ''Port '', Num 3, Lit '' re-enabled with original profile''],
        Call (GetSwitchPort test_device 3) Returned,
        Print [Lit ''Port '', Num 3, Lit '' status: '', Lit ''enabled'']]"
  have h1: "get_target_argument test_host ?a (test_controller 7) = (Inr ''home'', test_controller 7)"
    by (simp add: test_host_def test_args_def)
  have h2: "get_target_config test_host ''home'' (test_controller 7) =
      (Inr \<lparr>site = ''Default''\<rparr>, test_controller 7)"
    by (simp add: test_host_def)
  have h3: "to_omada_connection test_host \<lparr>site = ''Default''\<rparr> (test_controller 7) =
      (Inr (), test_controller 7)"
    by (simp add: test_host_def)
  have h4: "get_site_client test_host (site \<lparr>site = ''Default''\<rparr>) (test_controller 7) =
      (Inr test_client, test_controller 7)"
    by (simp add: test_host_def)
  have h5: "get_device_mac test_host test_client (arg_mac ?a) (test_controller 7) =
      (Inr ''AA:BB:CC:DD:EE:FF'', test_controller 7)"
    by (simp add: test_host_def test_args_def)
  have h6: "get_device test_client ''AA:BB:CC:DD:EE:FF'' (test_controller 7) =
      (Inr test_device, test_controller 6)"
    by (simp add: test_defs)
  have h7: "int_of_str test_host (arg_port ?a) = Some 3"
    by (simp add: test_host_def test_args_def)
  have h9: "arg_enable ?a \<or> arg_disable ?a"
    by (simp add: test_args_def)
  have h10: "(if arg_enable ?a
        then enable_port_via_schedule (asyncio_sleep test_host) test_client test_device 3
        else disable_port_via_schedule test_client test_device 3 (arg_apply_schedule ?a))
       ([] @ ?prelude, test_controller 6) = (Inr True, (?tr7, test_controller 1))"
    by (simp add: enable_port_via_schedule_run test_defs Let_def)
  have h11: "arg_dump ?a \<longrightarrow>
      get_switch_port test_client test_device 3 (test_controller 1) =
        (Inr test_port, test_controller 0)"
    by (simp add: test_defs)
  from exit_code_zero [OF h1 h2 h3 h4 h5 h6 h7 refl h9 h10 h11] h9 h11
  show ?thesis
    by (simp add: test_host_def)
qed

text \<open>
  Completion of the branch alone is not enough when the dump flag is set. On the test
  controller with a budget of six calls the enable branch runs to completion, the read
  for the dump times out, and the command ends with that exception instead of
  returning 0.
\<close>

theorem exit_code_zero_counterexample:
  "enable_port_via_schedule (asyncio_sleep test_host) test_client test_device 3
       ([Call GetTargetArgument Returned,
         Call (GetTargetConfig ''home'') Returned,
         Call (ToOmadaConnection \<lparr>site = ''Default''\<rparr>) Returned,
         Call (GetSiteClient ''Default'') Returned,
         Call (GetDeviceMac ''AA:BB:CC:DD:EE:FF'') Returned,
         Call (GetDevice ''AA:BB:CC:DD:EE:FF'') Returned],
        test_controller 5) =
     (Inr True,
      ([Call GetTargetArgument Returned,
        Call (GetTargetConfig ''home'') Returned,
        Call (ToOmadaConnection \<lparr>site = ''Default''\<rparr>) Returned,
        Call (GetSiteClient ''Default'') Returned,
        Call (GetDeviceMac ''AA:BB:CC:DD:EE:FF'') Returned,
        Call (GetDevice ''AA:BB:CC:DD:EE:FF'') Returned,
        Call (GetSwitchPort test_device 3) Returned,
        Call GetPortProfiles Returned,
        Call (UpdateSwitchPort test_device 3 (Some ''p-1'') None) Returned,
        Print [Lit ''Port '', Num 3, Lit '' temporarily disabled''],
        Sleep 1,
        Call (UpdateSwitchPort test_device 3 (Some ''p-default'') None) Returned,
        Print [Lit ''Port '', Num 3, Lit '' re-enabled with original profile''],
        Call (GetSwitchPort test_device 3) Returned,
        Print [Lit ''Port '', Num 3, Lit '' status: '', Lit ''enabled'']],
       test_controller 0)) \<and>
   command_switch_port test_host (test_args\<lparr>arg_dump := True\<rparr>) ([], test_controller 6) =
     (Inl (Propagated (Failure ''timed out'')),
      ([Call GetTargetArgument Returned,
        Call (GetTargetConfig ''home'') Returned,
        Call (ToOmadaConnection \<lparr>site = ''Default''\<rparr>) Returned,
        Call (GetSiteClient ''Default'') Returned,
        Call (GetDeviceMac ''AA:BB:CC:DD:EE:FF'') Returned,
        Call (GetDevice ''AA:BB:CC:DD:EE:FF'') Returned,
        Call (GetSwitchPort test_device 3) Returned,
        Call GetPortProfiles Returned,
        Call (UpdateSwitchPort test_device 3 (Some ''p-1'') None) Returned,
        Print [Lit ''Port '', Num 3, Lit '' temporarily disabled''],
        Sleep 1,
        Call (UpdateSwitchPort test_device 3 (Some ''p-default'') None) Returned,
        Print [Lit ''Port '', Num 3, Lit '' re-enabled with original profile''],
        Call (GetSwitchPort test_device 3) Returned,
        Print [Lit ''Port '', Num 3, Lit '' status: '', Lit ''enabled''],
        Call (GetSwitchPort test_device 3) (Raised (Failure ''timed out'')),
        CloseConnection],
       test_controller 0)) \<and>
   fst (command_switch_port test_host (test_args\<lparr>arg_dump := True\<rparr>) ([], test_controller 6))
     \<noteq> Inr 0"
  by (simp add: command_defs test_defs Let_def)

subsection \<open>Several profiles named Disable\<close>

text \<open>
  Claim C9. When the list of profiles has at least one profile named ``Disable'', the
  lookup returns the profile id of the earliest one in list order.
\<close>

theorem first_disable_profile_wins:
  assumes "get_port_profiles sc w = (Inr profiles, w')"
    and "\<exists>pr\<in>set profiles. name pr = ''Disable''"
  shows "\<exists>i<length profiles.
           name (profiles ! i) = ''Disable'' \<and>
           (\<forall>j<i. name (profiles ! j) \<noteq> ''Disable'') \<and>
           get_disable_profile_id sc (tr, w) =
             (Inr (OmadaPortProfile.profile_id (profiles ! i)),
              (tr @ [Call GetPortProfiles Returned], w'))"
  using loop_first_match [OF assms(2)] assms(1)
  by (auto simp: get_disable_profile_id_run)

theorem first_disable_profile_wins_witness:
  "get_disable_profile_id test_client
     ([], (test_controller 1)
            \<lparr>ctl_profiles := [OmadaPortProfile ''All'' ''p-0'', OmadaPortProfile ''Disable'' ''p-1'',
                              OmadaPortProfile ''Disable'' ''p-2'']\<rparr>) =
   (Inr ''p-1'',
    ([Call GetPortProfiles Returned],
     (test_controller 0)
       \<lparr>ctl_profiles := [OmadaPortProfile ''All'' ''p-0'', OmadaPortProfile ''Disable'' ''p-1'',
                         OmadaPortProfile ''Disable'' ''p-2'']\<rparr>))"
proof -
  let ?ps = "[OmadaPortProfile ''All'' ''p-0'', OmadaPortProfile ''Disable'' ''p-1'',
              OmadaPortProfile ''Disable'' ''p-2'']"
  have answer: "get_port_profiles test_client ((test_controller 1)\<lparr>ctl_profiles := ?ps\<rparr>) =
      (Inr ?ps, (test_controller 0)\<lparr>ctl_profiles := ?ps\<rparr>)"
    by (simp add: test_defs)
  have some: "\<exists>pr\<in>set ?ps. name pr = ''Disable''"
    by simp
  from first_disable_profile_wins [OF answer some, of "[]"]
  obtain i where i: "i < length ?ps" "name (?ps ! i) = ''Disable''"
    "\<forall>j<i. name (?ps ! j) \<noteq> ''Disable''"
    "get_disable_profile_id test_client ([], (test_controller 1)\<lparr>ctl_profiles := ?ps\<rparr>) =
       (Inr (OmadaPortProfile.profile_id (?ps ! i)),
        ([] @ [Call GetPortProfiles Returned], (test_controller 0)\<lparr>ctl_profiles := ?ps\<rparr>))"
    by blast
  have "i = 1"
  proof (rule ccontr)
    assume "i \<noteq> 1"
    with i(1) have "i = 0 \<or> i = 2" by auto
    then show False
    proof
      assume "i = 0" with i(2) show False by simp
    next
      assume "i = 2"
      then have "(1::nat) < i" by simp
      with i(3) have "name (?ps ! 1) \<noteq> ''Disable''" by blast
      then show False by simp
    qed
  qed
  with i(4) show ?thesis by simp
qed

subsection \<open>The raw dump\<close>

text \<open>
  Two runs that start with the same steps are related as soon as their continuations are.
\<close>

lemma rel_bind:
  assumes "\<And>e s'. P (Inl e, s') (Inl e, s')"
    and "\<And>x s'. P (k1 x s') (k2 x s')"
  shows "P (io_bind m k1 s) (io_bind m k2 s)"
proof -
  obtain r s' where "m s = (r, s')"
    by (cases "m s")
  then show ?thesis
    using assms by (cases r) (simp_all add: io_bind_def)
qed

text \<open>
  Claim C10. Take two invocations that differ in the dump flag alone, on a host whose
  target lookup does not read that flag. The \<^verbatim>\<open>update_switch_port\<close> calls they issue
  are the same, in every run. When the toggle has finished (the run without the flag
  returns), the run with the flag does what the other run did up to the closing of the
  connection, then issues exactly one \<^verbatim>\<open>get_switch_port\<close> call, dumps the port when
  that call returned, and closes the connection.
\<close>

theorem dump_adds_one_read:
  assumes "get_target_argument host (a\<lparr>arg_dump := True\<rparr>) =
           get_target_argument host (a\<lparr>arg_dump := False\<rparr>)"
  shows "mutating_calls (fst (snd (command_switch_port host (a\<lparr>arg_dump := True\<rparr>) s))) =
         mutating_calls (fst (snd (command_switch_port host (a\<lparr>arg_dump := False\<rparr>) s))) \<and>
         (\<forall>code. fst (command_switch_port host (a\<lparr>arg_dump := False\<rparr>) s) = Inr code \<longrightarrow>
            (\<exists>body d p oc rest.
               fst (snd (command_switch_port host (a\<lparr>arg_dump := False\<rparr>) s)) =
                 body @ [CloseConnection] \<and>
               fst (snd (command_switch_port host (a\<lparr>arg_dump := True\<rparr>) s)) =
                 body @ Call (GetSwitchPort d p) oc # rest @ [CloseConnection] \<and>
               (rest = [] \<or> (\<exists>pd. rest = [DumpRawData pd]))))"
proof -
  define inner :: "(exn + int) \<times> event list \<times> 'a \<Rightarrow> (exn + int) \<times> event list \<times> 'a \<Rightarrow> bool"
    where "inner x y \<longleftrightarrow>
      mutating_calls (fst (snd y)) = mutating_calls (fst (snd x)) \<and>
      (\<forall>code. fst x = Inr code \<longrightarrow>
         (\<exists>d p oc rest. fst (snd y) = fst (snd x) @ Call (GetSwitchPort d p) oc # rest \<and>
            (rest = [] \<or> (\<exists>pd. rest = [DumpRawData pd]))))" for x y
  define outer :: "(exn + int) \<times> event list \<times> 'a \<Rightarrow> (exn + int) \<times> event list \<times> 'a \<Rightarrow> bool"
    where "outer x y \<longleftrightarrow>
      mutating_calls (fst (snd y)) = mutating_calls (fst (snd x)) \<and>
      (\<forall>code. fst x = Inr code \<longrightarrow>
         (\<exists>body d p oc rest. fst (snd x) = body @ [CloseConnection] \<and>
            fst (snd y) = body @ Call (GetSwitchPort d p) oc # rest @ [CloseConnection] \<and>
            (rest = [] \<or> (\<exists>pd. rest = [DumpRawData pd]))))" for x y
  have inner_raise: "inner (Inl e, s') (Inl e, s')" for e s'
    by (simp add: inner_def)
  have outer_raise: "outer (Inl e, s') (Inl e, s')" for e s'
    by (simp add: outer_def)
  have last_step: "inner (io_bind (io_return ()) (\<lambda>_. io_return 0) s')
      (io_bind (io_bind (await (GetSwitchPort d p) (get_switch_port sc d p))
                  (\<lambda>port_details. dump_raw_data a' port_details))
         (\<lambda>_. io_return 0) s')" for d p sc a' s'
  proof (cases s')
    case (Pair tr w)
    show ?thesis
    proof (cases "get_switch_port sc d p w")
      case (Pair r w')
      then show ?thesis
        using \<open>s' = (tr, w)\<close>
        by (cases r)
          (auto simp: inner_def io_bind_def io_return_def await_def dump_raw_data_def emit_def
            mutating_calls_def)
    qed
  qed
  have wrap: "outer (case b1 s' of (r, (tr, w)) \<Rightarrow> (r, (tr @ [CloseConnection], close_connection host w)))
      (case b2 s' of (r, (tr, w)) \<Rightarrow> (r, (tr @ [CloseConnection], close_connection host w)))"
    if "inner (b1 s') (b2 s')" for b1 b2 :: "(int, 'a) io" and s'
    using that
    by (cases "b1 s'"; cases "b2 s'") (auto simp: inner_def outer_def mutating_calls_def)
  have "outer (command_switch_port host (a\<lparr>arg_dump := False\<rparr>) s)
      (command_switch_port host (a\<lparr>arg_dump := True\<rparr>) s)"
    unfolding command_switch_port_def async_with_def
    apply (simp add: assms cong: if_cong)
    apply (rule rel_bind, rule outer_raise)
    apply (rule rel_bind, rule outer_raise)
    apply (rule rel_bind, rule outer_raise)
    apply (rule wrap)
    apply (rule rel_bind, rule inner_raise)
    apply (rule rel_bind, rule inner_raise)
    apply (rule rel_bind, rule inner_raise)
    apply (rule rel_bind, rule inner_raise)
    apply (rule rel_bind, rule inner_raise)
    apply (rule last_step)
    done
  then show ?thesis
    unfolding outer_def by blast
qed

theorem dump_adds_one_read_witness:
  "get_target_argument test_host (test_args\<lparr>arg_dump := True\<rparr>) =
     get_target_argument test_host (test_args\<lparr>arg_dump := False\<rparr>) \<and>
   fst (command_switch_port test_host (test_args\<lparr>arg_dump := False\<rparr>)
          ([], test_controller 7)) = Inr 0 \<and>
   mutating_calls
     (fst (snd (command_switch_port test_host (test_args\<lparr>arg_dump := True\<rparr>)
                  ([], test_controller 7)))) =
   mutating_calls
     (fst (snd (command_switch_port test_host (test_args\<lparr>arg_dump := False\<rparr>)
                  ([], test_controller 7)))) \<and>
   (\<exists>body d p oc rest.
      fst (snd (command_switch_port test_host (test_args\<lparr>arg_dump := False\<rparr>)
                  ([], test_controller 7))) = body @ [CloseConnection] \<and>
      fst (snd (command_switch_port test_host (test_args\<lparr>arg_dump := True\<rparr>)
                  ([], test_controller 7))) =
        body @ Call (GetSwitchPort d p) oc # rest @ [CloseConnection] \<and>
      (rest = [] \<or> (\<exists>pd. rest = [DumpRawData pd])))"
proof -
  have indep: "get_target_argument test_host (test_args\<lparr>arg_dump := True\<rparr>) =
      get_target_argument test_host (test_args\<lparr>arg_dump := False\<rparr>)"
    by (simp add: test_host_def test_args_def)
  have returns: "fst (command_switch_port test_host (test_args\<lparr>arg_dump := False\<rparr>)
      ([], test_controller 7)) = Inr 0"
    by (simp add: command_defs test_defs Let_def)
  from dump_adds_one_read [OF indep, of "([], test_controller 7)"] indep returns
  show ?thesis
    by blast
qed

end
